theory Spec2Isabelle
  imports Complex_Main
begin

text \<open>
  A shallow embedding of the client logic of the expense tracker front end: the
  pagination window, the session gate of the protected views, the load and delete
  handlers of the list views, the report service, the filter handling of the report
  view and the geometry of its two charts.  Each function is translated from the
  TypeScript source; what the source leaves to the JavaScript runtime or to React is
  said where it is modelled.
\<close>

section \<open>Pagination window of the management screens\<close>

text \<open>
  \<^verbatim>\<open>renderPageNumbers\<close> of \<^verbatim>\<open>UserExpenseManagement\<close> pushes JSX elements onto an array.
  A pushed page button carries its React key (the zero-based page index that its
  \<^verbatim>\<open>onClick\<close> hands to \<^verbatim>\<open>handlePageChange\<close>), the label it displays and whether the
  active style is merged in; an ellipsis carries its key only.  \<^verbatim>\<open>totalPages\<close> and
  \<^verbatim>\<open>currentPage\<close> are integral numbers of the component state.
\<close>

datatype page_item = Button int int bool | Ellipsis string

text \<open>
  The loop \<^verbatim>\<open>for (let i = a; i < n; i++) pageNumbers.push(<button key={i} ...>{i + 1}</button>)\<close>
  with the style \<^verbatim>\<open>currentPage === i ? active : {}\<close>.  The loop of the middle window
  runs while \<^verbatim>\<open>i <= currentPage + 1\<close>, that is up to \<open>n = currentPage + 1 + 1\<close>.  The
  buttons pushed outside a loop (first and last page) never get the active style.
\<close>

function page_buttons :: "int \<Rightarrow> int \<Rightarrow> int \<Rightarrow> page_item list" where
  "page_buttons currentPage i n =
     (if i < n then Button i (i + 1) (currentPage = i) # page_buttons currentPage (i + 1) n
      else [])"
  by pat_completeness auto
termination
  by (relation "measure (\<lambda>(c, i, n). nat (n - i))") auto

declare page_buttons.simps [simp del]

definition maxVisiblePages :: int where
  "maxVisiblePages = 5"

definition renderPageNumbers :: "int \<Rightarrow> int \<Rightarrow> page_item list" where
  "renderPageNumbers totalPages currentPage =
     (if totalPages \<le> maxVisiblePages then page_buttons currentPage 0 totalPages
      else if currentPage < 3 then
        page_buttons currentPage 0 4
        @ [Ellipsis ''ellipsis'', Button (totalPages - 1) totalPages False]
      else if currentPage \<ge> totalPages - 3 then
        [Button 0 1 False, Ellipsis ''ellipsis'']
        @ page_buttons currentPage (totalPages - 4) totalPages
      else
        [Button 0 1 False, Ellipsis ''ellipsis1'']
        @ page_buttons currentPage (currentPage - 1) (currentPage + 1 + 1)
        @ [Ellipsis ''ellipsis2'', Button (totalPages - 1) totalPages False])"

text \<open>The page a rendered element leads to: \<open>None\<close> for an ellipsis.\<close>

fun page_of :: "page_item \<Rightarrow> int option" where
  "page_of (Button k l a) = Some k"
| "page_of (Ellipsis k) = None"

fun label_ok :: "page_item \<Rightarrow> bool" where
  "label_ok (Button k l a) = (l = k + 1)"
| "label_ok (Ellipsis k) = True"

section \<open>Browser storage and the session gate\<close>

text \<open>
  The two key/value stores of the browser.  \<^verbatim>\<open>getItem\<close> yields the stored string or
  \<^verbatim>\<open>null\<close> (\<open>None\<close>).
\<close>

record storage =
  localStorage :: "string \<rightharpoonup> string"
  sessionStorage :: "string \<rightharpoonup> string"

text \<open>
  JavaScript truthiness of a \<^verbatim>\<open>string | null\<close>: \<^verbatim>\<open>null\<close> and the empty string are
  falsy.  \<^verbatim>\<open>a || b\<close> is \<^verbatim>\<open>a\<close> when \<^verbatim>\<open>a\<close> is truthy and \<^verbatim>\<open>b\<close> otherwise.
\<close>

definition truthy :: "string option \<Rightarrow> bool" where
  "truthy v = (case v of None \<Rightarrow> False | Some s \<Rightarrow> s \<noteq> [])"

definition js_or :: "string option \<Rightarrow> string option \<Rightarrow> string option" where
  "js_or a b = (if truthy a then a else b)"

text \<open>\<^verbatim>\<open>localStorage.getItem(k) || sessionStorage.getItem(k)\<close>\<close>

definition stored :: "storage \<Rightarrow> string \<Rightarrow> string option" where
  "stored st k = js_or (localStorage st k) (sessionStorage st k)"

text \<open>
  The value \<^verbatim>\<open>JSON.parse\<close> returns.  An object lists each of its own properties once
  (the parser keeps one value per key).  \<^verbatim>\<open>JSON.parse\<close> and
  \<^verbatim>\<open>String.prototype.toUpperCase\<close> belong to the JavaScript runtime, not to this
  repository: the gates take them as the parameters \<open>JSON_parse\<close> (\<open>None\<close> when the
  runtime throws a \<^verbatim>\<open>SyntaxError\<close>) and \<open>toUpperCase\<close>.
\<close>

datatype json =
  JNull | JBool bool | JNum rat | JStr string | JArr "json list" | JObj "(string \<times> json) list"

datatype js_exception = SyntaxError | TypeError

text \<open>
  Property read \<^verbatim>\<open>v.name\<close>: a \<^verbatim>\<open>TypeError\<close> on \<^verbatim>\<open>null\<close>, the property of an object,
  \<^verbatim>\<open>undefined\<close> (\<open>None\<close>) on every other value.
\<close>

fun get_prop :: "json \<Rightarrow> string \<Rightarrow> js_exception + json option" where
  "get_prop JNull name = Inl TypeError"
| "get_prop (JObj kvs) name = Inr (map_of kvs name)"
| "get_prop v name = Inr None"

text \<open>
  \<^verbatim>\<open>userData.role?.toUpperCase() !== "ADMIN"\<close>.  The optional chain stops at a role that
  is \<^verbatim>\<open>undefined\<close> or \<^verbatim>\<open>null\<close> and yields \<^verbatim>\<open>undefined\<close>, which differs from
  \<^verbatim>\<open>"ADMIN"\<close>; a role that is no string has no \<^verbatim>\<open>toUpperCase\<close> method, and calling it
  is a \<^verbatim>\<open>TypeError\<close>.
\<close>

definition role_not_admin :: "(string \<Rightarrow> string) \<Rightarrow> json \<Rightarrow> js_exception + bool" where
  "role_not_admin toUpperCase userData =
     (case get_prop userData ''role'' of
        Inl e \<Rightarrow> Inl e
      | Inr None \<Rightarrow> Inr True
      | Inr (Some JNull) \<Rightarrow> Inr True
      | Inr (Some (JStr r)) \<Rightarrow> Inr (toUpperCase r \<noteq> ''ADMIN'')
      | Inr (Some v) \<Rightarrow> Inl TypeError)"

text \<open>
  \<^verbatim>\<open>if (userStr) { const userData = JSON.parse(userStr); ... }\<close>: the parsed profile, or
  \<open>None\<close> when the block is skipped.
\<close>

definition read_profile :: "(string \<Rightarrow> json option) \<Rightarrow> string option \<Rightarrow> js_exception + json option" where
  "read_profile JSON_parse userStr =
     (case userStr of
        None \<Rightarrow> Inr None
      | Some s \<Rightarrow>
          if s = [] then Inr None
          else (case JSON_parse s of None \<Rightarrow> Inl SyntaxError | Some userData \<Rightarrow> Inr (Some userData)))"

text \<open>
  What an effect does, in order: router navigations, the fetches it starts and the state
  setters it calls.  An effect yields the actions it performed and the exception that
  ended it, if one was thrown.
\<close>

datatype action =
  Navigate string
| FetchUsers | FetchCategories | FetchExpenses | FetchSummary | FetchRequestLogs
| FetchUserProfile
| SetUser json
| SetEditForm "json option" "json option" "json option"

type_synonym outcome = "action list \<times> js_exception option"



text \<open>
  The auth effect shared, line for line, by the admin-only views; \<open>proceed\<close> is what the
  view does after the role check (\<^verbatim>\<open>fetchUsers()\<close>, \<^verbatim>\<open>fetchCategories()\<close>,
  \<^verbatim>\<open>fetchRequestLogs()\<close>).
\<close>

definition admin_gate ::
  "action list \<Rightarrow> (string \<Rightarrow> json option) \<Rightarrow> (string \<Rightarrow> string) \<Rightarrow> storage \<Rightarrow> outcome" where
  "admin_gate proceed JSON_parse toUpperCase st =
     (let token = stored st ''authToken''; userStr = stored st ''user'' in
      if \<not> truthy token then ([Navigate ''/login''], None)
      else (case read_profile JSON_parse userStr of
              Inl e \<Rightarrow> ([], Some e)
            | Inr None \<Rightarrow> (proceed, None)
            | Inr (Some userData) \<Rightarrow>
                (case role_not_admin toUpperCase userData of
                   Inl e \<Rightarrow> ([], Some e)
                 | Inr True \<Rightarrow> ([Navigate ''/user/dashboard''], None)
                 | Inr False \<Rightarrow> (proceed, None))))"

definition UserManagement_gate ::
  "(string \<Rightarrow> json option) \<Rightarrow> (string \<Rightarrow> string) \<Rightarrow> storage \<Rightarrow> outcome" where
  "UserManagement_gate = admin_gate [FetchUsers]"

definition CategoryManagement_gate ::
  "(string \<Rightarrow> json option) \<Rightarrow> (string \<Rightarrow> string) \<Rightarrow> storage \<Rightarrow> outcome" where
  "CategoryManagement_gate = admin_gate [FetchCategories]"

definition RequestLogs_gate ::
  "(string \<Rightarrow> json option) \<Rightarrow> (string \<Rightarrow> string) \<Rightarrow> storage \<Rightarrow> outcome" where
  "RequestLogs_gate = admin_gate [FetchRequestLogs]"

text \<open>
  \<^verbatim>\<open>AdminDashboard\<close> fetches nothing; inside the profile block, after the role check, it
  calls \<^verbatim>\<open>setUser(userData)\<close>.
\<close>

definition AdminDashboard_gate ::
  "(string \<Rightarrow> json option) \<Rightarrow> (string \<Rightarrow> string) \<Rightarrow> storage \<Rightarrow> outcome" where
  "AdminDashboard_gate JSON_parse toUpperCase st =
     (let token = stored st ''authToken''; userStr = stored st ''user'' in
      if \<not> truthy token then ([Navigate ''/login''], None)
      else (case read_profile JSON_parse userStr of
              Inl e \<Rightarrow> ([], Some e)
            | Inr None \<Rightarrow> ([], None)
            | Inr (Some userData) \<Rightarrow>
                (case role_not_admin toUpperCase userData of
                   Inl e \<Rightarrow> ([], Some e)
                 | Inr True \<Rightarrow> ([Navigate ''/user/dashboard''], None)
                 | Inr False \<Rightarrow> ([SetUser userData], None))))"



text \<open>
  \<^verbatim>\<open>UserManagement\<close> has a second effect, on \<^verbatim>\<open>[currentPage, pageSize]\<close>, that calls
  \<^verbatim>\<open>fetchUsers()\<close> and reads no storage.  React runs both effects when the view mounts,
  in their order in the component.
\<close>

definition UserManagement_page_effect :: outcome where
  "UserManagement_page_effect = ([FetchUsers], None)"

definition UserManagement_mount ::
  "(string \<Rightarrow> json option) \<Rightarrow> (string \<Rightarrow> string) \<Rightarrow> storage \<Rightarrow> outcome list" where
  "UserManagement_mount JSON_parse toUpperCase st =
     [UserManagement_gate JSON_parse toUpperCase st, UserManagement_page_effect]"

text \<open>
  An upper-casing of ASCII letters and a parser that knows three profile strings, for
  running the gates on concrete storages.
\<close>

definition ascii_upper :: "string \<Rightarrow> string" where
  "ascii_upper s =
     map (\<lambda>c. case map_of (zip ''abcdefghijklmnopqrstuvwxyz'' ''ABCDEFGHIJKLMNOPQRSTUVWXYZ'') c of
               Some u \<Rightarrow> u | None \<Rightarrow> c) s"

definition sample_parse :: "string \<Rightarrow> json option" where
  \<open>sample_parse s =
     (if s = ''{"role":"admin"}'' then Some (JObj [(''role'', JStr ''admin'')])
      else if s = ''{"role":"USER"}'' then Some (JObj [(''role'', JStr ''USER'')])
      else if s = ''null'' then Some JNull
      else None)\<close>

section \<open>The paginated list views\<close>

text \<open>
  What a \<^verbatim>\<open>catch (err: any)\<close> block reads from a rejected service call:
  \<^verbatim>\<open>err?.response?.data?.message\<close> and \<^verbatim>\<open>err?.message\<close>, each a string or missing
  (\<^verbatim>\<open>undefined\<close> anywhere along the optional chain).
\<close>

record js_error =
  response_data_message :: "string option"
  message :: "string option"

text \<open>\<^verbatim>\<open>err?.response?.data?.message || err?.message || fallback\<close>\<close>

definition extract_message :: "js_error \<Rightarrow> string \<Rightarrow> string" where
  "extract_message err fallback =
     (case js_or (js_or (response_data_message err) (message err)) (Some fallback) of
        Some s \<Rightarrow> s
      | None \<Rightarrow> fallback)"

text \<open>
  The body a list endpoint answers with.  The views guard every field with \<^verbatim>\<open>||\<close>, so
  each may be missing.
\<close>

record 'a page_response =
  content :: "'a list option"
  response_totalPages :: "int option"
  response_totalElements :: "int option"

text \<open>\<^verbatim>\<open>n || 0\<close> on a number that may be missing.\<close>

definition or_zero :: "int option \<Rightarrow> int" where
  "or_zero n = (case n of None \<Rightarrow> 0 | Some k \<Rightarrow> k)"

text \<open>\<^verbatim>\<open>xs || []\<close> on an array that may be missing (an array, even empty, is truthy).\<close>

definition or_empty :: "'a list option \<Rightarrow> 'a list" where
  "or_empty xs = (case xs of None \<Rightarrow> [] | Some ys \<Rightarrow> ys)"

text \<open>The requests the views send through the services.\<close>

datatype call =
  GetAllExpenses int int | DeleteExpense string
| GetAllUsers int int | DeleteUser string
| GetAllCategories | DeleteCategory string

text \<open>
  The state that \<^verbatim>\<open>UserExpenseManagement\<close> and \<^verbatim>\<open>UserManagement\<close> keep for their list,
  pagination and delete dialog: \<open>items\<close> is \<^verbatim>\<open>expenses\<close> or \<^verbatim>\<open>users\<close>, \<open>toDelete\<close> is
  \<^verbatim>\<open>expenseToDelete\<close> or \<^verbatim>\<open>userToDelete\<close>.  The remaining state of a view (forms, the
  other dialogs, validation errors) lives in the extension of the record; the
  operations below are defined on every extension and never touch it.
\<close>

record 'a list_view =
  items :: "'a list"
  loading :: bool
  error :: "string option"
  showDeleteDialog :: bool
  toDelete :: "'a option"
  currentPage :: int
  pageSize :: int
  totalPages :: int
  totalElements :: int

text \<open>
  \<^verbatim>\<open>fetchExpenses\<close> and \<^verbatim>\<open>fetchUsers\<close> are the same function up to the service they call
  and the fallback message.  Before the \<^verbatim>\<open>await\<close> they set \<^verbatim>\<open>loading\<close> and clear
  \<^verbatim>\<open>error\<close>; when the call settles (\<open>Inl\<close>: rejected, \<open>Inr\<close>: resolved) they run the
  \<^verbatim>\<open>try\<close> or the \<^verbatim>\<open>catch\<close> branch and then \<^verbatim>\<open>finally\<close>.
\<close>

definition fetch_start :: "('a, 'z) list_view_scheme \<Rightarrow> ('a, 'z) list_view_scheme" where
  "fetch_start st = st\<lparr>loading := True, error := None\<rparr>"

definition fetch_settle ::
  "string \<Rightarrow> js_error + 'a page_response \<Rightarrow> ('a, 'z) list_view_scheme \<Rightarrow> ('a, 'z) list_view_scheme" where
  "fetch_settle fallback result st =
     (case result of
        Inr response \<Rightarrow>
          st\<lparr>items := or_empty (content response),
             totalPages := or_zero (response_totalPages response),
             totalElements := or_zero (response_totalElements response),
             loading := False\<rparr>
      | Inl err \<Rightarrow>
          st\<lparr>error := Some (extract_message err fallback), loading := False\<rparr>)"

definition fetchExpenses ::
  "js_error + 'a page_response \<Rightarrow> ('a, 'z) list_view_scheme \<Rightarrow> ('a, 'z) list_view_scheme \<times> call list" where
  "fetchExpenses result st =
     (fetch_settle ''Failed to load expenses'' result (fetch_start st),
      [GetAllExpenses (currentPage st) (pageSize st)])"

definition fetchUsers ::
  "js_error + 'a page_response \<Rightarrow> ('a, 'z) list_view_scheme \<Rightarrow> ('a, 'z) list_view_scheme \<times> call list" where
  "fetchUsers result st =
     (fetch_settle ''Failed to load users'' result (fetch_start st),
      [GetAllUsers (currentPage st) (pageSize st)])"

text \<open>
  \<^verbatim>\<open>handleDeleteExpense\<close> and \<^verbatim>\<open>handleDeleteUser\<close>.  \<open>id_of\<close> reads the \<^verbatim>\<open>id\<close> of an
  entity; \<open>deleted\<close> is how the delete call settles and \<open>fetched\<close> how the reload after
  it does.  The reload catches its own errors, so it never reaches the handler's
  \<^verbatim>\<open>catch\<close>.
\<close>

definition handleDeleteExpense ::
  "('a \<Rightarrow> string) \<Rightarrow> js_error + unit \<Rightarrow> js_error + 'a page_response
   \<Rightarrow> ('a, 'z) list_view_scheme \<Rightarrow> ('a, 'z) list_view_scheme \<times> call list" where
  "handleDeleteExpense id_of deleted fetched st =
     (case toDelete st of
        None \<Rightarrow> (st, [])
      | Some expenseToDelete \<Rightarrow>
          (case deleted of
             Inr _ \<Rightarrow>
               (let (st', calls) = fetchExpenses fetched st
                in (st'\<lparr>showDeleteDialog := False, toDelete := None\<rparr>,
                    DeleteExpense (id_of expenseToDelete) # calls))
           | Inl err \<Rightarrow>
               (st\<lparr>error := Some (extract_message err ''Failed to delete expense''),
                   showDeleteDialog := False, toDelete := None\<rparr>,
                [DeleteExpense (id_of expenseToDelete)])))"

definition handleDeleteUser ::
  "('a \<Rightarrow> string) \<Rightarrow> js_error + unit \<Rightarrow> js_error + 'a page_response
   \<Rightarrow> ('a, 'z) list_view_scheme \<Rightarrow> ('a, 'z) list_view_scheme \<times> call list" where
  "handleDeleteUser id_of deleted fetched st =
     (case toDelete st of
        None \<Rightarrow> (st, [])
      | Some userToDelete \<Rightarrow>
          (case deleted of
             Inr _ \<Rightarrow>
               (let (st', calls) = fetchUsers fetched st
                in (st'\<lparr>showDeleteDialog := False, toDelete := None\<rparr>,
                    DeleteUser (id_of userToDelete) # calls))
           | Inl err \<Rightarrow>
               (st\<lparr>error := Some (extract_message err ''Failed to delete user''),
                   showDeleteDialog := False, toDelete := None\<rparr>,
                [DeleteUser (id_of userToDelete)])))"

text \<open>
  \<^verbatim>\<open>CategoryManagement\<close> has no pagination; after a delete it patches its list instead
  of reloading.
\<close>

record 'a category_view =
  categories :: "'a list"
  category_loading :: bool
  category_error :: "string option"
  category_totalElements :: int
  category_showDeleteDialog :: bool
  categoryToDelete :: "'a option"

definition fetchCategories ::
  "js_error + 'a page_response \<Rightarrow> ('a, 'z) category_view_scheme
   \<Rightarrow> ('a, 'z) category_view_scheme \<times> call list" where
  "fetchCategories result st =
     (let st1 = st\<lparr>category_loading := True, category_error := None\<rparr>
      in (case result of
            Inr response \<Rightarrow>
              st1\<lparr>categories := or_empty (content response),
                  category_totalElements := or_zero (response_totalElements response),
                  category_loading := False\<rparr>
          | Inl err \<Rightarrow>
              st1\<lparr>category_error := Some (extract_message err ''Failed to load categories''),
                  category_loading := False\<rparr>),
      [GetAllCategories])"

definition handleDeleteCategory ::
  "('a \<Rightarrow> string) \<Rightarrow> js_error + unit \<Rightarrow> ('a, 'z) category_view_scheme
   \<Rightarrow> ('a, 'z) category_view_scheme \<times> call list" where
  "handleDeleteCategory id_of deleted st =
     (case categoryToDelete st of
        None \<Rightarrow> (st, [])
      | Some c \<Rightarrow>
          (case deleted of
             Inr _ \<Rightarrow>
               (st\<lparr>categories := filter (\<lambda>category. id_of category \<noteq> id_of c) (categories st),
                   category_totalElements := category_totalElements st - 1,
                   category_showDeleteDialog := False, categoryToDelete := None\<rparr>,
                [DeleteCategory (id_of c)])
           | Inl err \<Rightarrow>
               (st\<lparr>category_error := Some (extract_message err ''Failed to delete category''),
                   category_showDeleteDialog := False, categoryToDelete := None\<rparr>,
                [DeleteCategory (id_of c)])))"

text \<open>
  The rule the specification gives for the message of a failure: the first candidate
  that is available (present and not the empty string), else the fallback.
\<close>

fun first_available :: "string option list \<Rightarrow> string \<Rightarrow> string" where
  "first_available [] fallback = fallback"
| "first_available (None # cs) fallback = first_available cs fallback"
| "first_available (Some s # cs) fallback = (if s = [] then first_available cs fallback else s)"

section \<open>The report service and the report view\<close>

text \<open>
  \<^verbatim>\<open>SummaryFilters\<close>: both fields are optional.  A request is the URL and the
  \<^verbatim>\<open>params\<close> object handed to \<^verbatim>\<open>api.get\<close>, its properties in insertion order.
\<close>

record SummaryFilters =
  categoryId :: "string option"
  month :: "string option"

datatype request = ApiGet string "(string \<times> string) list"

text \<open>\<^verbatim>\<open>filters?.field\<close> on an argument that may be missing.\<close>

definition opt_field :: "('r \<Rightarrow> 'v option) \<Rightarrow> 'r option \<Rightarrow> 'v option" where
  "opt_field f r = (case r of None \<Rightarrow> None | Some x \<Rightarrow> f x)"

text \<open>\<^verbatim>\<open>if (v) { params.key = v; }\<close>\<close>

definition set_if_truthy ::
  "string \<Rightarrow> string option \<Rightarrow> (string \<times> string) list \<Rightarrow> (string \<times> string) list" where
  "set_if_truthy key v params =
     (case v of None \<Rightarrow> params | Some s \<Rightarrow> if s \<noteq> [] then params @ [(key, s)] else params)"

definition getSummary :: "SummaryFilters option \<Rightarrow> request" where
  "getSummary filters =
     (let params = [];
          params = set_if_truthy ''categoryId'' (opt_field categoryId filters) params;
          params = set_if_truthy ''month'' (opt_field month filters) params
      in ApiGet ''/expenses/summary'' params)"

fun params_of :: "request \<Rightarrow> (string \<times> string) list" where
  "params_of (ApiGet url params) = params"

text \<open>
  The state of \<^verbatim>\<open>UserExpenseReport\<close>.  The two filter strings start empty; the summary
  is \<^verbatim>\<open>null\<close> until one has been loaded.
\<close>

record ('s, 'c) report_view =
  summary :: "'s option"
  report_loading :: bool
  report_error :: "string option"
  report_categories :: "'c list"
  selectedCategoryId :: string
  selectedMonth :: string

text \<open>
  \<^verbatim>\<open>fetchSummary\<close> up to its \<^verbatim>\<open>await\<close>: it builds the filter object from the non-empty
  selections and calls the service with it.  The second component lists the filter
  objects passed to \<^verbatim>\<open>ReportService.getSummary\<close>.
\<close>

definition fetchSummary ::
  "('s, 'c, 'z) report_view_scheme \<Rightarrow> ('s, 'c, 'z) report_view_scheme \<times> SummaryFilters list" where
  "fetchSummary st =
     (let filters = \<lparr>categoryId = None, month = None\<rparr>;
          filters = (if selectedCategoryId st \<noteq> []
                     then filters\<lparr>categoryId := Some (selectedCategoryId st)\<rparr> else filters);
          filters = (if selectedMonth st \<noteq> []
                     then filters\<lparr>month := Some (selectedMonth st)\<rparr> else filters)
      in (st\<lparr>report_loading := True, report_error := None\<rparr>, [filters]))"

text \<open>\<^verbatim>\<open>fetchSummary\<close> after the \<^verbatim>\<open>await\<close>.\<close>

definition fetchSummary_settle ::
  "js_error + 's \<Rightarrow> ('s, 'c, 'z) report_view_scheme \<Rightarrow> ('s, 'c, 'z) report_view_scheme" where
  "fetchSummary_settle result st =
     (case result of
        Inr response \<Rightarrow> st\<lparr>summary := Some response, report_loading := False\<rparr>
      | Inl err \<Rightarrow>
          st\<lparr>report_error := Some (extract_message err ''Failed to load summary''),
             report_loading := False\<rparr>)"

text \<open>
  The effect on \<^verbatim>\<open>[selectedCategoryId, selectedMonth]\<close>: it refetches when both
  selections are empty and a summary is there.
\<close>

definition filters_effect ::
  "('s, 'c, 'z) report_view_scheme \<Rightarrow> ('s, 'c, 'z) report_view_scheme \<times> SummaryFilters list" where
  "filters_effect st =
     (if selectedCategoryId st = [] \<and> selectedMonth st = [] \<and> summary st \<noteq> None
      then fetchSummary st else (st, []))"

text \<open>
  React renders again after an event handler has run, all state updates of the handler
  applied together, and runs an effect after that render when one of its dependencies
  differs from the render before.
\<close>

definition after_render ::
  "('s, 'c, 'z) report_view_scheme \<Rightarrow> ('s, 'c, 'z) report_view_scheme
   \<Rightarrow> ('s, 'c, 'z) report_view_scheme \<times> SummaryFilters list" where
  "after_render old new =
     (if selectedCategoryId new \<noteq> selectedCategoryId old \<or> selectedMonth new \<noteq> selectedMonth old
      then filters_effect new else (new, []))"

text \<open>
  The events of the filter section: the \<^verbatim>\<open>onChange\<close> of the category select and of the
  month input, \<^verbatim>\<open>handleFilterChange\<close> (the Apply button) and \<^verbatim>\<open>handleClearFilters\<close>; and
  the settling of a pending summary request.
\<close>

datatype 's event =
  ChangeCategory string | ChangeMonth string | ApplyFilters | ClearFilters
| SummarySettled "js_error + 's"

fun dispatch ::
  "'s event \<Rightarrow> ('s, 'c, 'z) report_view_scheme
   \<Rightarrow> ('s, 'c, 'z) report_view_scheme \<times> SummaryFilters list" where
  "dispatch (ChangeCategory v) st = after_render st (st\<lparr>selectedCategoryId := v\<rparr>)"
| "dispatch (ChangeMonth v) st = after_render st (st\<lparr>selectedMonth := v\<rparr>)"
| "dispatch ApplyFilters st =
     (let (st1, calls1) = fetchSummary st; (st2, calls2) = after_render st st1
      in (st2, calls1 @ calls2))"
| "dispatch ClearFilters st = after_render st (st\<lparr>selectedCategoryId := [], selectedMonth := []\<rparr>)"
| "dispatch (SummarySettled result) st = after_render st (fetchSummary_settle result st)"

text \<open>A sequence of events, with all the summary requests it causes.\<close>

fun run ::
  "'s event list \<Rightarrow> ('s, 'c, 'z) report_view_scheme
   \<Rightarrow> ('s, 'c, 'z) report_view_scheme \<times> SummaryFilters list" where
  "run [] st = (st, [])"
| "run (e # es) st =
     (let (st1, calls1) = dispatch e st; (st2, calls2) = run es st1 in (st2, calls1 @ calls2))"

section \<open>The charts of the report view\<close>


record MonthlyBreakdown =
  monthly_month :: string
  totalAmount :: rat
  count :: int

subsection \<open>Pie chart\<close>













subsection \<open>Bar chart\<close>

text \<open>
  A JavaScript number that a division may have produced: a finite value, \<^verbatim>\<open>NaN\<close> or an
  infinity.  Zero carries no sign in the model.
\<close>

datatype jsnum = Finite rat | NaN | PosInfinity | NegInfinity

text \<open>\<^verbatim>\<open>Math.max(...xs)\<close>: \<^verbatim>\<open>-Infinity\<close> on no argument.\<close>

definition Math_max :: "rat list \<Rightarrow> jsnum" where
  "Math_max xs = (case xs of [] \<Rightarrow> NegInfinity | x # rest \<Rightarrow> Finite (fold max rest x))"

text \<open>\<^verbatim>\<open>a / b\<close> for a finite \<^verbatim>\<open>a\<close>.\<close>

fun js_div :: "rat \<Rightarrow> jsnum \<Rightarrow> jsnum" where
  "js_div a (Finite b) =
     (if b \<noteq> 0 then Finite (a / b)
      else if a = 0 then NaN
      else if a > 0 then PosInfinity else NegInfinity)"
| "js_div a NaN = NaN"
| "js_div a PosInfinity = Finite 0"
| "js_div a NegInfinity = Finite 0"

text \<open>\<^verbatim>\<open>x * c\<close> for a finite \<^verbatim>\<open>c\<close>.\<close>

fun js_times :: "jsnum \<Rightarrow> rat \<Rightarrow> jsnum" where
  "js_times (Finite x) c = Finite (x * c)"
| "js_times NaN c = NaN"
| "js_times PosInfinity c = (if c > 0 then PosInfinity else if c < 0 then NegInfinity else NaN)"
| "js_times NegInfinity c = (if c > 0 then NegInfinity else if c < 0 then PosInfinity else NaN)"

text \<open>\<^verbatim>\<open>c - x\<close> for a finite \<^verbatim>\<open>c\<close>.\<close>

fun js_minus :: "rat \<Rightarrow> jsnum \<Rightarrow> jsnum" where
  "js_minus c (Finite x) = Finite (c - x)"
| "js_minus c NaN = NaN"
| "js_minus c PosInfinity = NegInfinity"
| "js_minus c NegInfinity = PosInfinity"

definition barWidth :: rat where "barWidth = 40"
definition barSpacing :: rat where "barSpacing = 20"
definition chartHeight :: rat where "chartHeight = 250"
definition chartTopPadding :: rat where "chartTopPadding = 20"
definition chartBottomPadding :: rat where "chartBottomPadding = 80"
definition chartLeftPadding :: rat where "chartLeftPadding = 60"
definition chartRightPadding :: rat where "chartRightPadding = 20"

definition barChartHeight :: rat where
  "barChartHeight = chartHeight - chartTopPadding"

text \<open>
  A bar: the \<^verbatim>\<open>x\<close>, \<^verbatim>\<open>y\<close> and \<^verbatim>\<open>height\<close> of its \<^verbatim>\<open><rect>\<close>, the amount printed above it and
  the month token under it (the view formats the token with the browser's locale
  functions).
\<close>

record bar =
  bar_x :: rat
  bar_y :: jsnum
  bar_height :: jsnum
  bar_amount :: rat
  bar_month :: string

record bar_chart =
  totalWidth :: rat
  totalHeight :: rat
  y_labels :: "(jsnum \<times> rat) list"
  bars :: "bar list"

text \<open>The callback of \<^verbatim>\<open>monthlyData.map\<close> for the bars.\<close>

definition make_bar :: "jsnum \<Rightarrow> MonthlyBreakdown \<Rightarrow> nat \<Rightarrow> bar" where
  "make_bar maxAmount m index =
     (let barHeight = js_times (js_div (totalAmount m) maxAmount) barChartHeight;
          x = chartLeftPadding + (of_nat index * (barWidth + barSpacing)) + barSpacing;
          y = js_minus chartHeight barHeight
      in \<lparr>bar_x = x, bar_y = y, bar_height = barHeight,
          bar_amount = totalAmount m, bar_month = monthly_month m\<rparr>)"

definition generateBarChart :: "MonthlyBreakdown list \<Rightarrow> bar_chart option" where
  "generateBarChart monthlyData =
     (if length monthlyData = 0 then None
      else
        (let maxAmount = Math_max (map totalAmount monthlyData);
             totalWidth = chartLeftPadding
                          + (of_nat (length monthlyData) * (barWidth + barSpacing))
                          + chartRightPadding;
             totalHeight = chartHeight + chartTopPadding + chartBottomPadding
         in Some \<lparr>totalWidth = totalWidth, totalHeight = totalHeight,
                   y_labels = map (\<lambda>factor. (js_times maxAmount factor,
                                              chartHeight - (barChartHeight * factor)))
                                  [0, 1 / 4, 1 / 2, 3 / 4, 1],
                   bars = map (\<lambda>(m, index). make_bar maxAmount m index)
                              (zip monthlyData [0..<length monthlyData])\<rparr>))"

text \<open>The heights of the bars of a chart; no bar when no chart is drawn.\<close>

definition bar_heights :: "MonthlyBreakdown list \<Rightarrow> jsnum list" where
  "bar_heights monthlyData =
     (case generateBarChart monthlyData of None \<Rightarrow> [] | Some chart \<Rightarrow> map bar_height (bars chart))"



section \<open>Pagination window: results\<close>

lemma page_buttons_upto:
  "page_buttons c i n = map (\<lambda>k. Button k (k + 1) (c = k)) [i..n - 1]"
proof (induction c i n rule: page_buttons.induct)
  case (1 c i n)
  show ?case
  proof (cases "i < n")
    case True
    then have "[i..n - 1] = i # [i + 1..n - 1]"
      by (simp add: upto_rec1)
    with True 1 show ?thesis
      by (simp add: page_buttons.simps [of c i n])
  next
    case False
    then show ?thesis
      by (simp add: page_buttons.simps [of c i n])
  qed
qed

lemma page_of_page_buttons:
  "map page_of (page_buttons c i n) = map Some [i..n - 1]"
  by (simp add: page_buttons_upto comp_def)

lemma upto_3: "[i..i + 2] = [i, i + 1, i + (2::int)]"
proof -
  have a: "[i..i + 2] = i # [i + 1..i + 2]"
    by (rule upto_rec1) simp
  have b: "[i + 1..i + 2] = (i + 1) # [i + 1 + 1..i + 2]"
    by (rule upto_rec1) simp
  have c: "[i + 1 + 1..i + 2] = [i + 2]"
    by (simp add: add.commute)
  show ?thesis
    unfolding a b c ..
qed

lemma upto_4: "[i..i + 3] = [i, i + 1, i + 2, i + (3::int)]"
proof -
  have a: "[i..i + 3] = i # [i + 1..i + 3]"
    by (rule upto_rec1) simp
  have b: "[i + 1..i + 3] = (i + 1) # [i + 1 + 1..i + 3]"
    by (rule upto_rec1) simp
  have c: "[i + 1 + 1..i + 3] = (i + 2) # [i + 3..i + 3]"
    using upto_rec1 [of "i + 2" "i + 3"] by (simp add: add.commute)
  have d: "[i + 3..i + 3] = [i + 3]"
    by simp
  show ?thesis
    unfolding a b c d ..
qed
text \<open>
  C1.  Write \<open>tp\<close> for \<^verbatim>\<open>totalPages\<close> and \<open>cp\<close> for \<^verbatim>\<open>currentPage\<close>.  For \<open>tp \<ge> 0\<close>
  and \<open>cp\<close> in \<open>[0, tp)\<close> the renderer shows: every page \<open>0 .. tp - 1\<close> and no
  ellipsis (so exactly \<open>tp\<close> buttons) when \<open>tp \<le> 5\<close>; pages \<open>0..3\<close>, one ellipsis and
  the last page when \<open>tp > 5\<close> and \<open>cp < 3\<close>; the first page, one ellipsis and the last
  four pages when \<open>tp > 5\<close> and \<open>cp \<ge> tp - 3\<close>; otherwise the first page, an ellipsis,
  the pages \<open>cp - 1 .. cp + 1\<close>, an ellipsis and the last page.  Every button is
  labelled with its page index plus one.
\<close>

theorem renderPageNumbers_window:
  assumes "0 \<le> tp" and "0 \<le> cp" and "cp < tp"
  shows "(tp \<le> 5 \<longrightarrow>
            map page_of (renderPageNumbers tp cp) = map Some [0..tp - 1]
            \<and> length (renderPageNumbers tp cp) = nat tp)
       \<and> (5 < tp \<and> cp < 3 \<longrightarrow>
            map page_of (renderPageNumbers tp cp)
              = [Some 0, Some 1, Some 2, Some 3, None, Some (tp - 1)])
       \<and> (5 < tp \<and> tp - 3 \<le> cp \<longrightarrow>
            map page_of (renderPageNumbers tp cp)
              = [Some 0, None, Some (tp - 4), Some (tp - 3),
                 Some (tp - 2), Some (tp - 1)])
       \<and> (5 < tp \<and> 3 \<le> cp \<and> cp < tp - 3 \<longrightarrow>
            map page_of (renderPageNumbers tp cp)
              = [Some 0, None, Some (cp - 1), Some cp,
                 Some (cp + 1), None, Some (tp - 1)])
       \<and> list_all label_ok (renderPageNumbers tp cp)"
proof -
  have small: "tp \<le> 5 \<Longrightarrow>
      map page_of (renderPageNumbers tp cp) = map Some [0..tp - 1]
      \<and> length (renderPageNumbers tp cp) = nat tp"
    using assms by (simp add: renderPageNumbers_def maxVisiblePages_def page_buttons_upto comp_def)
  have low: "5 < tp \<Longrightarrow> cp < 3 \<Longrightarrow>
      map page_of (renderPageNumbers tp cp)
        = [Some 0, Some 1, Some 2, Some 3, None, Some (tp - 1)]"
    using upto_4 [of 0]
    by (simp add: renderPageNumbers_def maxVisiblePages_def page_of_page_buttons)
  have high: "5 < tp \<Longrightarrow> tp - 3 \<le> cp \<Longrightarrow>
      map page_of (renderPageNumbers tp cp)
        = [Some 0, None, Some (tp - 4), Some (tp - 3),
           Some (tp - 2), Some (tp - 1)]"
    using upto_4 [of "tp - 4"]
    by (simp add: renderPageNumbers_def maxVisiblePages_def page_of_page_buttons)
  have mid: "5 < tp \<Longrightarrow> 3 \<le> cp \<Longrightarrow> cp < tp - 3 \<Longrightarrow>
      map page_of (renderPageNumbers tp cp)
        = [Some 0, None, Some (cp - 1), Some cp,
           Some (cp + 1), None, Some (tp - 1)]"
    using upto_3 [of "cp - 1"]
    by (simp add: renderPageNumbers_def maxVisiblePages_def page_of_page_buttons)
  have labels: "list_all label_ok (renderPageNumbers tp cp)"
    by (simp add: renderPageNumbers_def page_buttons_upto list_all_iff)
  from small low high mid labels show ?thesis by blast
qed

theorem renderPageNumbers_window_witness:
  "map page_of (renderPageNumbers 10 5) = [Some 0, None, Some 4, Some 5, Some 6, None, Some 9]
   \<and> map page_of (renderPageNumbers 10 0) = [Some 0, Some 1, Some 2, Some 3, None, Some 9]
   \<and> map page_of (renderPageNumbers 10 9) = [Some 0, None, Some 6, Some 7, Some 8, Some 9]
   \<and> length (renderPageNumbers 4 2) = 4"
  using renderPageNumbers_window [of 10 5] renderPageNumbers_window [of 10 0]
    renderPageNumbers_window [of 10 9] renderPageNumbers_window [of 4 2]
  by simp

section \<open>Session gate: results\<close>

lemma stored_absent:
  "localStorage st k = None \<Longrightarrow> sessionStorage st k = None \<Longrightarrow> stored st k = None"
  by (simp add: stored_def js_or_def truthy_def)

lemma admin_gate_no_token:
  "stored st ''authToken'' = None \<Longrightarrow>
   admin_gate proceed JSON_parse toUpperCase st = ([Navigate ''/login''], None)"
  by (simp add: admin_gate_def truthy_def)

lemma admin_gate_with_role:
  assumes "truthy (stored st ''authToken'')"
    and "stored st ''user'' = Some s" and "s \<noteq> []"
    and "JSON_parse s = Some userData"
    and "get_prop userData ''role'' = Inr (Some (JStr r))"
  shows "admin_gate proceed JSON_parse toUpperCase st =
           (if toUpperCase r = ''ADMIN'' then (proceed, None)
            else ([Navigate ''/user/dashboard''], None))"
  using assms by (simp add: admin_gate_def read_profile_def role_not_admin_def)

lemma admin_gate_no_profile:
  "truthy (stored st ''authToken'') \<Longrightarrow> stored st ''user'' = None \<Longrightarrow>
   admin_gate proceed JSON_parse toUpperCase st = (proceed, None)"
  by (simp add: admin_gate_def read_profile_def)



text \<open>
  The pagination effect of \<^verbatim>\<open>UserManagement\<close> is no part of the gate: mounting the view
  without a token runs the gate, which redirects, and then that effect, which calls
  \<^verbatim>\<open>fetchUsers()\<close> all the same.
\<close>

lemma UserManagement_mount_without_token:
  assumes "localStorage st ''authToken'' = None"
    and "sessionStorage st ''authToken'' = None"
  shows "UserManagement_mount JSON_parse toUpperCase st
           = [([Navigate ''/login''], None), ([FetchUsers], None)]"
  using stored_absent [OF assms]
  by (simp add: UserManagement_mount_def UserManagement_gate_def admin_gate_no_token
      UserManagement_page_effect_def)

text \<open>
  C3.  On an admin-only view, with a non-empty token stored and a cached profile that
  parses to an object whose \<^verbatim>\<open>role\<close> is a string: if the role upper-cases to
  \<^verbatim>\<open>"ADMIN"\<close> the gate does not redirect (it goes on to the view's fetch, or to
  \<^verbatim>\<open>setUser\<close> on the dashboard); if it upper-cases to anything else the gate navigates
  to \<^verbatim>\<open>/user/dashboard\<close> and does nothing else.
\<close>

theorem admin_gate_role_decides:
  assumes "truthy (stored st ''authToken'')"
    and "stored st ''user'' = Some s" and "s \<noteq> []"
    and "JSON_parse s = Some userData"
    and "get_prop userData ''role'' = Inr (Some (JStr r))"
  shows "(toUpperCase r = ''ADMIN'' \<longrightarrow>
            UserManagement_gate JSON_parse toUpperCase st = ([FetchUsers], None)
          \<and> CategoryManagement_gate JSON_parse toUpperCase st = ([FetchCategories], None)
          \<and> RequestLogs_gate JSON_parse toUpperCase st = ([FetchRequestLogs], None)
          \<and> AdminDashboard_gate JSON_parse toUpperCase st = ([SetUser userData], None))
       \<and> (toUpperCase r \<noteq> ''ADMIN'' \<longrightarrow>
            UserManagement_gate JSON_parse toUpperCase st = ([Navigate ''/user/dashboard''], None)
          \<and> CategoryManagement_gate JSON_parse toUpperCase st = ([Navigate ''/user/dashboard''], None)
          \<and> RequestLogs_gate JSON_parse toUpperCase st = ([Navigate ''/user/dashboard''], None)
          \<and> AdminDashboard_gate JSON_parse toUpperCase st = ([Navigate ''/user/dashboard''], None))"
proof -
  have g: "admin_gate proceed JSON_parse toUpperCase st =
      (if toUpperCase r = ''ADMIN'' then (proceed, None)
       else ([Navigate ''/user/dashboard''], None))" for proceed
    using assms by (rule admin_gate_with_role)
  have dash: "AdminDashboard_gate JSON_parse toUpperCase st =
      (if toUpperCase r = ''ADMIN'' then ([SetUser userData], None)
       else ([Navigate ''/user/dashboard''], None))"
    using assms by (simp add: AdminDashboard_gate_def read_profile_def role_not_admin_def)
  show ?thesis
    by (simp add: UserManagement_gate_def CategoryManagement_gate_def RequestLogs_gate_def g dash)
qed

theorem admin_gate_role_decides_witness:
  \<open>UserManagement_gate sample_parse ascii_upper
      \<lparr>localStorage = Map.empty,
       sessionStorage = [''authToken'' \<mapsto> ''t'', ''user'' \<mapsto> ''{"role":"admin"}'']\<rparr>
     = ([FetchUsers], None)
   \<and> CategoryManagement_gate sample_parse ascii_upper
      \<lparr>localStorage = [''authToken'' \<mapsto> ''t'', ''user'' \<mapsto> ''{"role":"USER"}''],
       sessionStorage = Map.empty\<rparr>
     = ([Navigate ''/user/dashboard''], None)\<close>
proof -
  let ?a = \<open>\<lparr>localStorage = Map.empty,
       sessionStorage = [''authToken'' \<mapsto> ''t'', ''user'' \<mapsto> ''{"role":"admin"}'']\<rparr>\<close>
  let ?u = \<open>\<lparr>localStorage = [''authToken'' \<mapsto> ''t'', ''user'' \<mapsto> ''{"role":"USER"}''],
       sessionStorage = Map.empty\<rparr>\<close>
  have a: \<open>UserManagement_gate sample_parse ascii_upper ?a = ([FetchUsers], None)\<close>
    using admin_gate_role_decides
      [of ?a \<open>''{"role":"admin"}''\<close> sample_parse \<open>JObj [(''role'', JStr ''admin'')]\<close>
          \<open>''admin''\<close> ascii_upper]
    by (simp add: stored_def js_or_def truthy_def sample_parse_def ascii_upper_def)
  have u: \<open>CategoryManagement_gate sample_parse ascii_upper ?u
             = ([Navigate ''/user/dashboard''], None)\<close>
    using admin_gate_role_decides
      [of ?u \<open>''{"role":"USER"}''\<close> sample_parse \<open>JObj [(''role'', JStr ''USER'')]\<close>
          \<open>''USER''\<close> ascii_upper]
    by (simp add: stored_def js_or_def truthy_def sample_parse_def ascii_upper_def)
  from a u show ?thesis by simp
qed

text \<open>
  C4.  On an admin-only management view, with a non-empty token stored and no \<^verbatim>\<open>user\<close>
  entry in either storage, the role check is skipped: the gate does not navigate
  anywhere and goes on to the view's fetch.
\<close>

theorem admin_gate_without_profile_proceeds:
  assumes "truthy (stored st ''authToken'')"
    and "localStorage st ''user'' = None"
    and "sessionStorage st ''user'' = None"
  shows "UserManagement_gate JSON_parse toUpperCase st = ([FetchUsers], None)
       \<and> CategoryManagement_gate JSON_parse toUpperCase st = ([FetchCategories], None)
       \<and> RequestLogs_gate JSON_parse toUpperCase st = ([FetchRequestLogs], None)"
proof -
  have "stored st ''user'' = None"
    using assms(2,3) by (rule stored_absent)
  with assms(1) show ?thesis
    by (simp add: UserManagement_gate_def CategoryManagement_gate_def RequestLogs_gate_def
        admin_gate_no_profile)
qed

theorem admin_gate_without_profile_proceeds_witness:
  "truthy (stored \<lparr>localStorage = [''authToken'' \<mapsto> ''t''], sessionStorage = Map.empty\<rparr> ''authToken'')
   \<and> UserManagement_gate sample_parse ascii_upper
        \<lparr>localStorage = [''authToken'' \<mapsto> ''t''], sessionStorage = Map.empty\<rparr>
      = ([FetchUsers], None)
   \<and> CategoryManagement_gate sample_parse ascii_upper
        \<lparr>localStorage = [''authToken'' \<mapsto> ''t''], sessionStorage = Map.empty\<rparr>
      = ([FetchCategories], None)"
  using admin_gate_without_profile_proceeds
    [of "\<lparr>localStorage = [''authToken'' \<mapsto> ''t''], sessionStorage = Map.empty\<rparr>"
        sample_parse ascii_upper]
  by (simp add: stored_def js_or_def truthy_def)

section \<open>List views: results\<close>

lemma extract_message_first_available:
  "extract_message err fallback
     = first_available [response_data_message err, message err] fallback"
  by (cases "response_data_message err"; cases "message err")
     (simp_all add: extract_message_def js_or_def truthy_def)

lemma fetch_settle_failure:
  "fetch_settle fallback (Inl err) (fetch_start st)
     = st\<lparr>error := Some (first_available [response_data_message err, message err] fallback),
          loading := False\<rparr>"
  by (simp add: fetch_settle_def fetch_start_def extract_message_first_available)

lemma fetch_settle_loading: "loading (fetch_settle fallback result st) = False"
  by (cases result) (simp_all add: fetch_settle_def)

text \<open>
  C5.  A load that fails (\<^verbatim>\<open>fetchExpenses\<close>, \<^verbatim>\<open>fetchUsers\<close>, \<^verbatim>\<open>fetchCategories\<close>) changes
  two things only: \<^verbatim>\<open>error\<close> becomes the first available (present and non-empty) of
  \<^verbatim>\<open>response.data.message\<close> and the error's own \<^verbatim>\<open>message\<close>, else the fallback of the
  operation, and \<^verbatim>\<open>loading\<close> becomes false; the items loaded before and the totals
  stay.  Whether the load fails or succeeds, \<^verbatim>\<open>loading\<close> is false afterwards.
\<close>

theorem load_failure_sets_error_keeps_items:
  "fst (fetchExpenses (Inl err) st)
     = st\<lparr>error := Some (first_available [response_data_message err, message err]
                          ''Failed to load expenses''),
          loading := False\<rparr>
   \<and> items (fst (fetchExpenses (Inl err) st)) = items st
   \<and> fst (fetchUsers (Inl err) ust)
     = ust\<lparr>error := Some (first_available [response_data_message err, message err]
                          ''Failed to load users''),
           loading := False\<rparr>
   \<and> items (fst (fetchUsers (Inl err) ust)) = items ust
   \<and> fst (fetchCategories (Inl err) cst)
     = cst\<lparr>category_error := Some (first_available [response_data_message err, message err]
                          ''Failed to load categories''),
           category_loading := False\<rparr>
   \<and> categories (fst (fetchCategories (Inl err) cst)) = categories cst
   \<and> loading (fst (fetchExpenses result st)) = False
   \<and> loading (fst (fetchUsers result ust)) = False
   \<and> category_loading (fst (fetchCategories result cst)) = False"
proof -
  have e: "fst (fetchExpenses (Inl err) st)
     = st\<lparr>error := Some (first_available [response_data_message err, message err]
                          ''Failed to load expenses''),
          loading := False\<rparr>"
    by (simp add: fetchExpenses_def fetch_settle_failure)
  have u: "fst (fetchUsers (Inl err) ust)
     = ust\<lparr>error := Some (first_available [response_data_message err, message err]
                          ''Failed to load users''),
           loading := False\<rparr>"
    by (simp add: fetchUsers_def fetch_settle_failure)
  have c: "fst (fetchCategories (Inl err) cst)
     = cst\<lparr>category_error := Some (first_available [response_data_message err, message err]
                          ''Failed to load categories''),
           category_loading := False\<rparr>"
    by (simp add: fetchCategories_def extract_message_first_available)
  have le: "loading (fst (fetchExpenses result st)) = False"
    by (simp add: fetchExpenses_def fetch_settle_loading)
  have lu: "loading (fst (fetchUsers result ust)) = False"
    by (simp add: fetchUsers_def fetch_settle_loading)
  have lc: "category_loading (fst (fetchCategories result cst)) = False"
    by (cases result) (simp_all add: fetchCategories_def)
  have ie: "items (fst (fetchExpenses (Inl err) st)) = items st"
    by (simp add: e)
  have iu: "items (fst (fetchUsers (Inl err) ust)) = items ust"
    by (simp add: u)
  have ic: "categories (fst (fetchCategories (Inl err) cst)) = categories cst"
    by (simp add: c)
  from e u c le lu lc ie iu ic show ?thesis by blast
qed

theorem load_failure_sets_error_keeps_items_witness:
  "fst (fetchExpenses
          (Inl \<lparr>response_data_message = Some [], message = Some ''Network Error''\<rparr>)
          \<lparr>items = [''rent''], loading = False, error = None, showDeleteDialog = False,
           toDelete = None, currentPage = 0, pageSize = 10, totalPages = 1, totalElements = 1\<rparr>)
     = \<lparr>items = [''rent''], loading = False, error = Some ''Network Error'',
         showDeleteDialog = False, toDelete = None, currentPage = 0, pageSize = 10,
         totalPages = 1, totalElements = 1\<rparr>
   \<and> categories (fst (fetchCategories
          (Inl \<lparr>response_data_message = Some [], message = Some ''Network Error''\<rparr>)
          \<lparr>categories = [''food''], category_loading = False, category_error = None,
           category_totalElements = 1, category_showDeleteDialog = False,
           categoryToDelete = None\<rparr>))
     = [''food'']"
  using load_failure_sets_error_keeps_items
    [of "\<lparr>response_data_message = Some [], message = Some ''Network Error''\<rparr>"
        "\<lparr>items = [''rent''], loading = False, error = None, showDeleteDialog = False,
          toDelete = None, currentPage = 0, pageSize = 10, totalPages = 1, totalElements = 1\<rparr>"
        "\<lparr>items = [''ann''], loading = False, error = None, showDeleteDialog = False,
          toDelete = None, currentPage = 0, pageSize = 10, totalPages = 1, totalElements = 1\<rparr>"
        "\<lparr>categories = [''food''], category_loading = False, category_error = None,
          category_totalElements = 1, category_showDeleteDialog = False,
          categoryToDelete = None\<rparr>"
        "Inr \<lparr>content = Some [''rent''], response_totalPages = Some 1,
          response_totalElements = Some 1\<rparr>"]
  by simp

text \<open>
  C10.  Confirming the delete dialog while nothing is selected for deletion
  (\<^verbatim>\<open>expenseToDelete\<close>, \<^verbatim>\<open>userToDelete\<close>, \<^verbatim>\<open>categoryToDelete\<close> is \<^verbatim>\<open>null\<close>) returns at
  once: no request is sent and the state of the view, all of it, is what it was,
  however the services would have answered.
\<close>

theorem delete_without_selection_is_noop:
  assumes "toDelete st = None" and "toDelete ust = None" and "categoryToDelete cst = None"
  shows "handleDeleteExpense id_of deleted fetched st = (st, [])
       \<and> handleDeleteUser id_of deleted fetched ust = (ust, [])
       \<and> handleDeleteCategory id_of deleted cst = (cst, [])"
  using assms
  by (simp add: handleDeleteExpense_def handleDeleteUser_def handleDeleteCategory_def)

theorem delete_without_selection_is_noop_witness:
  "handleDeleteExpense (\<lambda>e. e) (Inr ()) (Inr \<lparr>content = Some [], response_totalPages = Some 0,
       response_totalElements = Some 0\<rparr>)
     \<lparr>items = [''rent''], loading = False, error = None, showDeleteDialog = True,
      toDelete = None, currentPage = 0, pageSize = 10, totalPages = 1, totalElements = 1\<rparr>
   = (\<lparr>items = [''rent''], loading = False, error = None, showDeleteDialog = True,
       toDelete = None, currentPage = 0, pageSize = 10, totalPages = 1, totalElements = 1\<rparr>, [])
   \<and> handleDeleteCategory (\<lambda>c. c) (Inr ())
     \<lparr>categories = [''food''], category_loading = False, category_error = None,
      category_totalElements = 1, category_showDeleteDialog = True, categoryToDelete = None\<rparr>
   = (\<lparr>categories = [''food''], category_loading = False, category_error = None,
       category_totalElements = 1, category_showDeleteDialog = True, categoryToDelete = None\<rparr>, [])"
  using delete_without_selection_is_noop
    [of "\<lparr>items = [''rent''], loading = False, error = None, showDeleteDialog = True,
          toDelete = None, currentPage = 0, pageSize = 10, totalPages = 1, totalElements = 1\<rparr>"
        "\<lparr>items = [''rent''], loading = False, error = None, showDeleteDialog = True,
          toDelete = None, currentPage = 0, pageSize = 10, totalPages = 1, totalElements = 1\<rparr>"
        "\<lparr>categories = [''food''], category_loading = False, category_error = None,
          category_totalElements = 1, category_showDeleteDialog = True, categoryToDelete = None\<rparr>"
        "\<lambda>e. e" "Inr ()"
        "Inr \<lparr>content = Some [], response_totalPages = Some 0, response_totalElements = Some 0\<rparr>"]
  by simp

text \<open>
  With a selection the handler does send the delete request, so the guard is what keeps
  the confirm without a selection silent.
\<close>

lemma delete_with_selection_calls_service:
  "toDelete st = Some x \<Longrightarrow>
   snd (handleDeleteExpense id_of (Inl err) fetched st) = [DeleteExpense (id_of x)]"
  by (simp add: handleDeleteExpense_def)

section \<open>Report service and report view: results\<close>

lemma set_if_truthy_eq:
  "set_if_truthy key v params = (if truthy v then params @ [(key, the v)] else params)"
  by (cases v) (simp_all add: set_if_truthy_def truthy_def)

text \<open>
  C8.  The \<^verbatim>\<open>params\<close> that \<^verbatim>\<open>getSummary\<close> sends hold \<^verbatim>\<open>categoryId\<close> exactly when the
  filter is set and non-empty, likewise \<^verbatim>\<open>month\<close>, nothing else, and no empty value:
  an unset or empty filter is left out, never sent as an empty string.
\<close>

theorem getSummary_omits_unset_filters:
  "map_of (params_of (getSummary filters)) ''categoryId''
     = (if truthy (opt_field categoryId filters) then opt_field categoryId filters else None)
   \<and> map_of (params_of (getSummary filters)) ''month''
     = (if truthy (opt_field month filters) then opt_field month filters else None)
   \<and> fst ` set (params_of (getSummary filters)) \<subseteq> {''categoryId'', ''month''}
   \<and> [] \<notin> snd ` set (params_of (getSummary filters))"
proof -
  obtain c where c: "opt_field categoryId filters = c" by simp
  obtain m where m: "opt_field month filters = m" by simp
  show ?thesis
    unfolding getSummary_def Let_def c m
    by (cases c; cases m) (auto simp: set_if_truthy_def truthy_def)
qed

theorem getSummary_omits_unset_filters_witness:
  "getSummary (Some \<lparr>categoryId = Some [], month = Some ''2024-01''\<rparr>)
     = ApiGet ''/expenses/summary'' [(''month'', ''2024-01'')]
   \<and> map_of (params_of (getSummary (Some \<lparr>categoryId = Some [], month = Some ''2024-01''\<rparr>)))
        ''categoryId'' = None
   \<and> getSummary None = ApiGet ''/expenses/summary'' []"
  using getSummary_omits_unset_filters [of "Some \<lparr>categoryId = Some [], month = Some ''2024-01''\<rparr>"]
  by (simp add: getSummary_def set_if_truthy_def opt_field_def)

lemma fetchSummary_calls:
  "snd (fetchSummary st)
     = [\<lparr>categoryId = (if selectedCategoryId st \<noteq> [] then Some (selectedCategoryId st) else None),
         month = (if selectedMonth st \<noteq> [] then Some (selectedMonth st) else None)\<rparr>]"
  by (simp add: fetchSummary_def)

lemma fetchSummary_keeps_filters:
  "selectedCategoryId (fst (fetchSummary st)) = selectedCategoryId st
   \<and> selectedMonth (fst (fetchSummary st)) = selectedMonth st"
  by (simp add: fetchSummary_def Let_def)

text \<open>
  C6.  In the report view:
  \<^item> a change of the category or of the month after which a filter is still set sends
    no summary request;
  \<^item> Apply sends exactly one, with the filters that are set;
  \<^item> when a summary has been loaded and a filter is set, any event that leaves both
    filters empty (Clear, or emptying the only filter that was set) sends exactly one
    request, with the empty filter object, and that request reaches the service with
    no parameter;
  \<^item> Clear while both filters are already empty, or before any summary has been loaded,
    sends none.
\<close>

theorem report_refetch_policy:
  "(v \<noteq> [] \<or> selectedMonth st \<noteq> [] \<longrightarrow> snd (dispatch (ChangeCategory v) st) = [])
   \<and> (v \<noteq> [] \<or> selectedCategoryId st \<noteq> [] \<longrightarrow> snd (dispatch (ChangeMonth v) st) = [])
   \<and> snd (dispatch ApplyFilters st)
       = [\<lparr>categoryId = (if selectedCategoryId st \<noteq> [] then Some (selectedCategoryId st) else None),
           month = (if selectedMonth st \<noteq> [] then Some (selectedMonth st) else None)\<rparr>]
   \<and> (summary st \<noteq> None \<and> (selectedCategoryId st \<noteq> [] \<or> selectedMonth st \<noteq> []) \<longrightarrow>
        snd (dispatch ClearFilters st) = [\<lparr>categoryId = None, month = None\<rparr>]
        \<and> selectedCategoryId (fst (dispatch ClearFilters st)) = []
        \<and> selectedMonth (fst (dispatch ClearFilters st)) = []
        \<and> getSummary (Some \<lparr>categoryId = None, month = None\<rparr>) = ApiGet ''/expenses/summary'' [])
   \<and> (summary st \<noteq> None \<and> selectedCategoryId st \<noteq> [] \<and> selectedMonth st = [] \<longrightarrow>
        snd (dispatch (ChangeCategory []) st) = [\<lparr>categoryId = None, month = None\<rparr>])
   \<and> (summary st \<noteq> None \<and> selectedMonth st \<noteq> [] \<and> selectedCategoryId st = [] \<longrightarrow>
        snd (dispatch (ChangeMonth []) st) = [\<lparr>categoryId = None, month = None\<rparr>])
   \<and> (summary st = None \<or> (selectedCategoryId st = [] \<and> selectedMonth st = []) \<longrightarrow>
        snd (dispatch ClearFilters st) = [])"
proof -
  have cat: "v \<noteq> [] \<or> selectedMonth st \<noteq> [] \<Longrightarrow> snd (dispatch (ChangeCategory v) st) = []"
    by (auto simp: after_render_def filters_effect_def)
  have mon: "v \<noteq> [] \<or> selectedCategoryId st \<noteq> [] \<Longrightarrow> snd (dispatch (ChangeMonth v) st) = []"
    by (auto simp: after_render_def filters_effect_def)
  have app: "snd (dispatch ApplyFilters st)
       = [\<lparr>categoryId = (if selectedCategoryId st \<noteq> [] then Some (selectedCategoryId st) else None),
           month = (if selectedMonth st \<noteq> [] then Some (selectedMonth st) else None)\<rparr>]"
    using fetchSummary_keeps_filters [of st] fetchSummary_calls [of st]
    by (simp add: after_render_def split_beta)
  have clr: "summary st \<noteq> None \<Longrightarrow> selectedCategoryId st \<noteq> [] \<or> selectedMonth st \<noteq> [] \<Longrightarrow>
        snd (dispatch ClearFilters st) = [\<lparr>categoryId = None, month = None\<rparr>]
        \<and> selectedCategoryId (fst (dispatch ClearFilters st)) = []
        \<and> selectedMonth (fst (dispatch ClearFilters st)) = []"
    by (auto simp: after_render_def filters_effect_def fetchSummary_def)
  have req: "getSummary (Some \<lparr>categoryId = None, month = None\<rparr>) = ApiGet ''/expenses/summary'' []"
    by (simp add: getSummary_def set_if_truthy_def opt_field_def)
  have cat0: "summary st \<noteq> None \<Longrightarrow> selectedCategoryId st \<noteq> [] \<Longrightarrow> selectedMonth st = [] \<Longrightarrow>
        snd (dispatch (ChangeCategory []) st) = [\<lparr>categoryId = None, month = None\<rparr>]"
    by (auto simp: after_render_def filters_effect_def fetchSummary_def)
  have mon0: "summary st \<noteq> None \<Longrightarrow> selectedMonth st \<noteq> [] \<Longrightarrow> selectedCategoryId st = [] \<Longrightarrow>
        snd (dispatch (ChangeMonth []) st) = [\<lparr>categoryId = None, month = None\<rparr>]"
    by (auto simp: after_render_def filters_effect_def fetchSummary_def)
  have none: "summary st = None \<or> (selectedCategoryId st = [] \<and> selectedMonth st = []) \<Longrightarrow>
        snd (dispatch ClearFilters st) = []"
    by (auto simp: after_render_def filters_effect_def)
  from cat mon app clr req cat0 mon0 none show ?thesis by blast
qed

theorem report_refetch_policy_witness:
  "snd (dispatch (ChangeCategory ''cat1'')
          \<lparr>summary = Some (500::nat), report_loading = False, report_error = None,
           report_categories = [''cat1''], selectedCategoryId = [], selectedMonth = []\<rparr>) = []
   \<and> snd (dispatch ClearFilters
          \<lparr>summary = Some (500::nat), report_loading = False, report_error = None,
           report_categories = [''cat1''], selectedCategoryId = ''cat1'',
           selectedMonth = ''2024-01''\<rparr>) = [\<lparr>categoryId = None, month = None\<rparr>]
   \<and> snd (dispatch ApplyFilters
          \<lparr>summary = Some (500::nat), report_loading = False, report_error = None,
           report_categories = [''cat1''], selectedCategoryId = ''cat1'',
           selectedMonth = ''2024-01''\<rparr>) = [\<lparr>categoryId = Some ''cat1'', month = Some ''2024-01''\<rparr>]"
  using report_refetch_policy
    [of "''cat1''"
        "\<lparr>summary = Some (500::nat), report_loading = False, report_error = None,
          report_categories = [''cat1''], selectedCategoryId = [], selectedMonth = []\<rparr>"]
    report_refetch_policy
    [of "''cat1''"
        "\<lparr>summary = Some (500::nat), report_loading = False, report_error = None,
          report_categories = [''cat1''], selectedCategoryId = ''cat1'',
          selectedMonth = ''2024-01''\<rparr>"]
  by simp

text \<open>
  The scenario of the view's tests: with a summary loaded, set both filters, then
  Clear.  The whole sequence sends one request, the one with the empty filter object.
\<close>

lemma set_then_clear_refetches_once:
  "snd (run [ChangeCategory ''cat1'', ChangeMonth ''2024-01'', ClearFilters]
          \<lparr>summary = Some (500::nat), report_loading = False, report_error = None,
           report_categories = [''cat1''], selectedCategoryId = [], selectedMonth = []\<rparr>)
     = [\<lparr>categoryId = None, month = None\<rparr>]"
  by (simp add: after_render_def filters_effect_def fetchSummary_def)

section \<open>Charts: results\<close>

subsection \<open>Pie chart\<close>







subsection \<open>Bar chart\<close>

lemma Math_max_nonempty: "xs \<noteq> [] \<Longrightarrow> Math_max xs = Finite (Max (set xs))"
proof (cases xs)
  case Nil
  assume "xs \<noteq> []"
  with Nil show ?thesis by simp
next
  case (Cons a list)
  have "fold max list a = Max (set (a # list))"
    by (rule Max.set_eq_fold [symmetric])
  with Cons show ?thesis
    by (simp add: Math_max_def)
qed

lemma bar_heights_nth:
  assumes "i < length monthlyData"
  shows "bar_heights monthlyData ! i
       = js_times (js_div (totalAmount (monthlyData ! i))
                     (Finite (Max (totalAmount ` set monthlyData)))) 230"
proof -
  from assms have ne: "monthlyData \<noteq> []" by auto
  then have mx: "Math_max (map totalAmount monthlyData)
      = Finite (Max (totalAmount ` set monthlyData))"
    using Math_max_nonempty [of "map totalAmount monthlyData"] by simp
  from ne assms show ?thesis
    by (simp add: bar_heights_def generateBarChart_def Let_def mx make_bar_def
        barChartHeight_def chartHeight_def chartTopPadding_def)
qed

lemma length_bar_heights: "length (bar_heights monthlyData) = length monthlyData"
  by (simp add: bar_heights_def generateBarChart_def Let_def)

text \<open>
  C9.  For a non-empty monthly breakdown with non-negative amounts: when the greatest
  amount is positive, the height of every bar is its amount divided by the greatest
  amount, times 230, a number in \<open>[0, 230]\<close>; when the greatest amount is zero the
  division is \<^verbatim>\<open>0 / 0\<close>, nothing guards it, and the height of every bar is \<^verbatim>\<open>NaN\<close>.
\<close>

theorem bar_height_in_range:
  assumes "monthlyData \<noteq> []"
    and "\<forall>m \<in> set monthlyData. 0 \<le> totalAmount m"
    and "i < length monthlyData"
  shows "(0 < Max (totalAmount ` set monthlyData) \<longrightarrow>
            bar_heights monthlyData ! i
              = Finite (totalAmount (monthlyData ! i) / Max (totalAmount ` set monthlyData) * 230)
          \<and> 0 \<le> totalAmount (monthlyData ! i) / Max (totalAmount ` set monthlyData) * 230
          \<and> totalAmount (monthlyData ! i) / Max (totalAmount ` set monthlyData) * 230 \<le> 230)
       \<and> (Max (totalAmount ` set monthlyData) = 0 \<longrightarrow> bar_heights monthlyData ! i = NaN)
       \<and> length (bar_heights monthlyData) = length monthlyData"
proof -
  let ?mx = "Max (totalAmount ` set monthlyData)"
  let ?a = "totalAmount (monthlyData ! i)"
  have mem: "monthlyData ! i \<in> set monthlyData"
    using assms(3) by simp
  then have a0: "0 \<le> ?a"
    using assms(2) by blast
  have le: "?a \<le> ?mx"
    using mem by (simp add: Max_ge)
  have pos: "bar_heights monthlyData ! i = Finite (?a / ?mx * 230)
      \<and> 0 \<le> ?a / ?mx * 230 \<and> ?a / ?mx * 230 \<le> 230" if "0 < ?mx"
  proof -
    from that have h: "bar_heights monthlyData ! i = Finite (?a / ?mx * 230)"
      by (simp add: bar_heights_nth [OF assms(3)])
    from that a0 have lo: "0 \<le> ?a / ?mx"
      by simp
    from that le have hi: "?a / ?mx \<le> 1"
      by (simp add: divide_le_eq_1)
    have b0: "0 \<le> ?a / ?mx * 230"
      using lo by (rule mult_nonneg_nonneg) simp
    have "?a / ?mx * 230 \<le> 1 * 230"
      using hi by (rule mult_right_mono) simp
    then have b1: "?a / ?mx * 230 \<le> 230"
      by simp
    from h b0 b1 show ?thesis by blast
  qed
  have zero: "bar_heights monthlyData ! i = NaN" if "?mx = 0"
  proof -
    from that le a0 have "?a = 0" by simp
    with that show ?thesis
      by (simp add: bar_heights_nth [OF assms(3)])
  qed
  from pos zero length_bar_heights show ?thesis by blast
qed

theorem bar_height_in_range_witness:
  "bar_heights [\<lparr>monthly_month = ''2024-01'', totalAmount = 100, count = 2\<rparr>,
                \<lparr>monthly_month = ''2024-02'', totalAmount = 50, count = 1\<rparr>] ! 1 = Finite 115
   \<and> bar_heights [\<lparr>monthly_month = ''2024-01'', totalAmount = 0, count = 0\<rparr>] ! 0 = NaN"
  using bar_height_in_range
    [of "[\<lparr>monthly_month = ''2024-01'', totalAmount = 100, count = 2\<rparr>,
          \<lparr>monthly_month = ''2024-02'', totalAmount = 50, count = 1\<rparr>]" 1]
    bar_height_in_range
    [of "[\<lparr>monthly_month = ''2024-01'', totalAmount = 0, count = 0\<rparr>]" 0]
  by simp

end
